theory Spec2Isabelle
  imports Main "HOL-Library.Word"
begin

section \<open>JavaScript strings\<close>

text \<open>
  A JavaScript string is a sequence of UTF-16 code units. The page's code looks at single
  code units only (\<open>trim\<close>, \<open>split\<close>, \<open>startsWith\<close>, the character classes of its
  regular expressions), so a string is modelled as a list of 16-bit words. \<open>js\<close> writes
  an ASCII literal of the source as such a list.
\<close>

type_synonym unit16 = "16 word"
type_synonym jsstring = "unit16 list"

definition js :: "string \<Rightarrow> jsstring" where
  "js s = map (\<lambda>c. of_nat (of_char c)) s"

text \<open>
  \<open>String.prototype.trim\<close> and the class \<open>\s\<close> of a regular expression without the
  \<open>u\<close> flag remove the same code units: ECMAScript's WhiteSpace (TAB, VT, FF, SP, NBSP,
  ZWNBSP and the category Zs) and LineTerminator (LF, CR, LS, PS).
\<close>

definition isWhitespace :: "unit16 \<Rightarrow> bool" where
  "isWhitespace c =
     (c \<in> {0x9, 0xA, 0xB, 0xC, 0xD, 0x20, 0xA0, 0x1680, 0x2028, 0x2029, 0x202F, 0x205F,
            0x3000, 0xFEFF}
      \<or> (0x2000 \<le> c \<and> c \<le> 0x200A))"

text \<open>The class \<open>\d\<close>: the ASCII digits \<open>0\<close> to \<open>9\<close>.\<close>

definition isDigit :: "unit16 \<Rightarrow> bool" where
  "isDigit c = (0x30 \<le> c \<and> c \<le> 0x39)"

text \<open>The class \<open>[*_#`]\<close> of the markdown-stripping expression.\<close>

definition isMarkdown :: "unit16 \<Rightarrow> bool" where
  "isMarkdown c = (c \<in> {0x2A, 0x5F, 0x23, 0x60})"

definition DOT :: unit16 where
  "DOT = 0x2E"

definition isDot :: "unit16 \<Rightarrow> bool" where
  "isDot c = (c = DOT)"

definition DASH :: unit16 where
  "DASH = 0x2D"

definition COLON :: unit16 where
  "COLON = 0x3A"

definition NEWLINE :: unit16 where
  "NEWLINE = 0xA"

definition trim :: "jsstring \<Rightarrow> jsstring" where
  "trim s = rev (dropWhile isWhitespace (rev (dropWhile isWhitespace s)))"

text \<open>\<open>s.startsWith(p)\<close>.\<close>

definition startsWith :: "jsstring \<Rightarrow> jsstring \<Rightarrow> bool" where
  "startsWith s p = (take (length p) s = p)"

text \<open>\<open>s.includes(p)\<close>: \<open>p\<close> occurs in \<open>s\<close> at some position.\<close>

fun includes_str :: "jsstring \<Rightarrow> jsstring \<Rightarrow> bool" where
  "includes_str [] p = (p = [])"
| "includes_str (c # cs) p = (startsWith (c # cs) p \<or> includes_str cs p)"

text \<open>\<open>s.substring(n)\<close> for a start index \<open>n\<close> (the source passes \<open>1\<close>).\<close>

definition substring :: "jsstring \<Rightarrow> nat \<Rightarrow> jsstring" where
  "substring s n = drop n s"

text \<open>
  \<open>s.split(sep)\<close> for a separator of one code unit (the source passes \<open>'\n'\<close> and
  \<open>':'\<close>). The result is never empty: the empty string splits into one empty piece.
\<close>

fun split :: "jsstring \<Rightarrow> unit16 \<Rightarrow> jsstring list" where
  "split [] sep = [[]]"
| "split (c # cs) sep =
     (if c = sep then [] # split cs sep
      else (case split cs sep of
              [] \<Rightarrow> [[c]]
            | p # ps \<Rightarrow> (c # p) # ps))"

text \<open>\<open>parts.join(sep)\<close>.\<close>

fun join :: "jsstring list \<Rightarrow> jsstring \<Rightarrow> jsstring" where
  "join [] sep = []"
| "join [p] sep = p"
| "join (p # q # ps) sep = p @ sep @ join (q # ps) sep"

section \<open>The two anchored regular expressions\<close>

text \<open>
  \<open>/^\d+\./\<close> and \<open>/^\d+\.\s*/\<close> are sequences of three kinds of atom: one code unit
  of a class, a greedy \<open>*\<close> of a class and a greedy \<open>+\<close> of a class. Both are anchored
  at the start and carry no flag, so a match can only begin at index 0.
  \<open>rx_match\<close> is the backtracking matcher: a greedy atom takes as many code units as it
  can and gives them back one at a time while the rest of the expression fails. It
  returns what follows the match.
\<close>

datatype atom = One "unit16 \<Rightarrow> bool" | Many0 "unit16 \<Rightarrow> bool" | Many1 "unit16 \<Rightarrow> bool"

fun rx_match :: "atom list \<Rightarrow> jsstring \<Rightarrow> jsstring option" where
  "rx_match [] s = Some s"
| "rx_match (One p # as) [] = None"
| "rx_match (One p # as) (c # cs) = (if p c then rx_match as cs else None)"
| "rx_match (Many1 p # as) [] = None"
| "rx_match (Many1 p # as) (c # cs) = (if p c then rx_match (Many0 p # as) cs else None)"
| "rx_match (Many0 p # as) [] = rx_match as []"
| "rx_match (Many0 p # as) (c # cs) =
     (if p c
      then (case rx_match (Many0 p # as) cs of
              Some r \<Rightarrow> Some r
            | None \<Rightarrow> rx_match as (c # cs))
      else rx_match as (c # cs))"

text \<open>\<open>rx.test(s)\<close> and \<open>s.replace(rx, rep)\<close> for such an expression.\<close>

definition rx_test :: "atom list \<Rightarrow> jsstring \<Rightarrow> bool" where
  "rx_test rx s = (rx_match rx s \<noteq> None)"

definition rx_replace :: "jsstring \<Rightarrow> atom list \<Rightarrow> jsstring \<Rightarrow> jsstring" where
  "rx_replace s rx rep = (case rx_match rx s of None \<Rightarrow> s | Some r \<Rightarrow> rep @ r)"

text \<open>\<open>/^\d+\./\<close>\<close>

definition RX_NUMBERED :: "atom list" where
  "RX_NUMBERED = [Many1 isDigit, One isDot]"

text \<open>\<open>/^\d+\.\s*/\<close>\<close>

definition RX_NUMBER_PREFIX :: "atom list" where
  "RX_NUMBER_PREFIX = [Many1 isDigit, One isDot, Many0 isWhitespace]"

text \<open>
  \<open>s.replace(/[*_#`]/g, '')\<close>: with the \<open>g\<close> flag every code unit of the class is
  replaced by the empty string.
\<close>

definition stripMarkdown :: "jsstring \<Rightarrow> jsstring" where
  "stripMarkdown s = filter (\<lambda>c. \<not> isMarkdown c) s"

section \<open>The result formatter\<close>

text \<open>
  \<open>formatAnalysis\<close> maps every line of the report to a React element or to \<open>null\<close> and
  filters the \<open>null\<close>s out. An element is modelled by its \<open>key\<close> (the index of the
  line) and by the kind of markup with the text it shows. In a labeled field the first
  \<open>span\<close> shows the label followed by a colon of the markup's own.
\<close>

datatype display_block =
    Heading jsstring
  | LabeledField jsstring jsstring
  | BulletItem jsstring
  | Paragraph jsstring

type_synonym element = "nat \<times> display_block"

definition cleanLine :: "jsstring \<Rightarrow> jsstring" where
  "cleanLine line = trim (stripMarkdown line)"

definition formatLine :: "jsstring \<Rightarrow> nat \<Rightarrow> element option" where
  "formatLine line index =
     (let c = cleanLine line in
      if c = [] then None
      else if rx_test RX_NUMBERED c
      then Some (index, Heading (rx_replace c RX_NUMBER_PREFIX []))
      else if startsWith c [DASH] \<and> includes_str c [COLON]
      then (case split (substring c 1) COLON of
              [] \<Rightarrow> None
            | label # valueParts \<Rightarrow>
                (let val = trim (join valueParts [COLON])
                 in Some (index, LabeledField (trim label) val)))
      else if startsWith c [DASH]
      then Some (index, BulletItem (trim (substring c 1)))
      else Some (index, Paragraph c))"

definition formatAnalysis :: "jsstring \<Rightarrow> element list" where
  "formatAnalysis text =
     List.map_filter (\<lambda>e. e)
       (map (\<lambda>(index, line). formatLine line index) (enumerate 0 (split text NEWLINE)))"

section \<open>The page controller\<close>

text \<open>
  The component \<open>Home\<close> holds four pieces of state: the data URL of the image shown (or
  \<open>null\<close>), the report text, the loading flag and the error message (or \<open>null\<close>).
\<close>

record ui_state =
  image_st :: "jsstring option"
  analysis :: jsstring
  loading :: bool
  error :: "jsstring option"

definition initial :: ui_state where
  "initial = \<lparr>image_st = None, analysis = [], loading = False, error = None\<rparr>"

text \<open>The built-in report shown with the default image.\<close>

definition DEFAULT_ANALYSIS :: jsstring where
  "DEFAULT_ANALYSIS = js (concat
     [''1. Species Identification:\<newline>'',
      ''- Scientific name: Quercus rubra\<newline>'',
      ''- Common name: Northern Red Oak\<newline>'',
      ''- Family: Fagaceae\<newline>'',
      ''- Classification: Deciduous hardwood\<newline>'',
      ''\<newline>'',
      ''2. Physical Characteristics:\<newline>'',
      ''- Size: Large (60-75 feet tall, 45-foot spread)\<newline>'',
      ''- Leaf Type: Alternate, simple, 7-9 lobed with bristle tips\<newline>'',
      ''- Bark: Dark gray-brown, developing distinctive ridges and furrows\<newline>'',
      ''- Distinctive Features: Acorns with shallow caps, red-brown fall foliage\<newline>'',
      ''- Growth Pattern: Pyramidal when young, rounded crown at maturity\<newline>'',
      ''\<newline>'',
      ''3. Growth Requirements:\<newline>'',
      ''- Light Needs: Full sun to partial shade\<newline>'',
      ''- Soil Preference: Adaptable, prefers well-drained, slightly acidic soil\<newline>'',
      ''- Moisture: Moderate, drought-tolerant once established\<newline>'',
      ''- Temperature Hardiness: USDA zones 4-8\<newline>'',
      ''- Growth Rate: Moderate to fast (1-2 feet per year)\<newline>'',
      ''\<newline>'',
      ''4. Ecological Information:\<newline>'',
      ''- Lifespan: 200-400 years\<newline>'',
      ''- Wildlife Value: Acorns provide food for wildlife, nesting habitat for birds\<newline>'',
      ''- Native Range: Eastern and Central North America\<newline>'',
      ''- Ecosystem Benefits: Carbon sequestration, erosion control, shade\<newline>'',
      ''- Seasonal Changes: Brilliant red fall color, winter dormancy\<newline>'',
      ''\<newline>'',
      ''5. Additional Information:\<newline>'',
      ''- Uses: Shade tree, timber, wildlife habitat\<newline>'',
      ''- Disease Resistance: Moderate, susceptible to oak wilt\<newline>'',
      ''- Cultural Significance: Symbol of strength and endurance\<newline>'',
      ''- Interesting Facts: Can produce up to 1,000 acorns in a good year\<newline>'',
      ''- Conservation Status: Least concern, widespread''])"

text \<open>
  A selected file, as far as the code reads it: \<open>file.type\<close> and \<open>file.size\<close>.
\<close>

record js_file =
  file_type :: jsstring
  file_size :: nat

text \<open>
  What a rejected promise carries: an instance of \<open>Error\<close> with its \<open>message\<close>, or any
  other value. A promise settles with a value or with such a rejection.
\<close>

datatype thrown = ErrorInstance jsstring | OtherValue

datatype 'a settled = Resolved 'a | Rejected thrown

text \<open>
  The asynchronous work a callback starts: a read of a file into a data URL, or a call
  of \<open>analyzeImage\<close> on the image data (with the constant prompt of the source).
\<close>

datatype request = ReadAsDataURL js_file | AnalyzeImage "jsstring option"

subsection \<open>The callbacks\<close>

text \<open>
  Every callback of the component runs to its end without interruption; it is modelled
  as a function from the state before it to the state after all its setters are
  applied. An \<open>async\<close> function is cut at its \<open>await\<close>.

  \<open>loadDefaultContent\<close>, up to the \<open>fetch\<close>; its \<open>catch\<close> block; and the two
  callbacks of its \<open>FileReader\<close>. \<open>reader.result\<close> is \<open>null\<close> after a failed read.
\<close>

definition loadDefaultContent_begin :: "ui_state \<Rightarrow> ui_state" where
  "loadDefaultContent_begin s = s\<lparr>loading := True\<rparr>"

definition loadDefaultContent_catch :: "ui_state \<Rightarrow> ui_state" where
  "loadDefaultContent_catch s =
     (s\<lparr>error := Some (js ''Failed to load default image'')\<rparr>)\<lparr>loading := False\<rparr>"

definition loadDefaultContent_onloadend :: "jsstring option \<Rightarrow> ui_state \<Rightarrow> ui_state" where
  "loadDefaultContent_onloadend base64data s =
     ((s\<lparr>image_st := base64data\<rparr>)\<lparr>analysis := DEFAULT_ANALYSIS\<rparr>)\<lparr>loading := False\<rparr>"

definition loadDefaultContent_onerror :: "ui_state \<Rightarrow> ui_state" where
  "loadDefaultContent_onerror s =
     (s\<lparr>error := Some (js ''Failed to load default image'')\<rparr>)\<lparr>loading := False\<rparr>"

text \<open>
  \<open>handleAnalyze\<close>: the part before the \<open>await\<close>, and the part after it
  (\<open>try\<close>/\<open>catch\<close>/\<open>finally\<close>) for the outcome of the call.
\<close>

definition handleAnalyze_begin :: "ui_state \<Rightarrow> ui_state" where
  "handleAnalyze_begin s = (s\<lparr>loading := True\<rparr>)\<lparr>error := None\<rparr>"

definition handleAnalyze_settle :: "jsstring settled \<Rightarrow> ui_state \<Rightarrow> ui_state" where
  "handleAnalyze_settle outcome s =
     (case outcome of
        Resolved result \<Rightarrow> (s\<lparr>analysis := result\<rparr>)\<lparr>loading := False\<rparr>
      | Rejected err \<Rightarrow>
          (let errorMessage =
                 (case err of
                    ErrorInstance message \<Rightarrow> message
                  | OtherValue \<Rightarrow> js ''Failed to analyze image. Please try again.'')
           in (s\<lparr>error := Some errorMessage\<rparr>)\<lparr>loading := False\<rparr>))"

text \<open>The whole of \<open>handleAnalyze\<close> when no other callback runs during the \<open>await\<close>.\<close>

definition handleAnalyze :: "jsstring settled \<Rightarrow> ui_state \<Rightarrow> ui_state" where
  "handleAnalyze outcome s = handleAnalyze_settle outcome (handleAnalyze_begin s)"

text \<open>
  \<open>handleImageUpload\<close> for the first selected file, if any, and the two callbacks of
  its \<open>FileReader\<close>. Each returns the new state and the work it starts. (The handler
  also empties the file input, which is not part of the state.)
\<close>

definition handleImageUpload :: "js_file option \<Rightarrow> ui_state \<Rightarrow> ui_state \<times> request list" where
  "handleImageUpload file s =
     (case file of
        None \<Rightarrow> (s, [])
      | Some f \<Rightarrow>
          if \<not> startsWith (file_type f) (js ''image/'')
          then (s\<lparr>error := Some (js ''Please upload a valid image file'')\<rparr>, [])
          else if file_size f > 20 * 1024 * 1024
          then (s\<lparr>error := Some (js ''Image size should be less than 20MB'')\<rparr>, [])
          else (s, [ReadAsDataURL f]))"

definition upload_onloadend :: "jsstring option \<Rightarrow> ui_state \<Rightarrow> ui_state \<times> request list" where
  "upload_onloadend base64String s =
     (handleAnalyze_begin ((s\<lparr>image_st := base64String\<rparr>)\<lparr>error := None\<rparr>),
      [AnalyzeImage base64String])"

definition upload_onerror :: "ui_state \<Rightarrow> ui_state" where
  "upload_onerror s = s\<lparr>error := Some (js ''Failed to read the image file. Please try again.'')\<rparr>"

subsection \<open>The page as a transition system\<close>

text \<open>
  Besides the state of the component, the page has work in flight: the load of the
  default image, reads of uploaded files and calls of \<open>analyzeImage\<close>. A \<open>FileReader\<close>
  whose read fails fires \<open>error\<close> and then \<open>loadend\<close> with a \<open>null\<close> result; one whose
  read succeeds fires \<open>loadend\<close> with the data URL.
\<close>

datatype default_load = Pending | Errored | Finished

record sys =
  ui :: ui_state
  default_image :: default_load
  reading :: nat
  read_errored :: nat
  analyzing :: nat

text \<open>The page once mounted: the effect has run \<open>loadDefaultContent\<close> up to its \<open>fetch\<close>.\<close>

definition mounted :: sys where
  "mounted = \<lparr>ui = loadDefaultContent_begin initial, default_image = Pending,
               reading = 0, read_errored = 0, analyzing = 0\<rparr>"

datatype event =
    DefaultFailed
  | DefaultReaderError
  | DefaultReaderLoadEnd "jsstring option"
  | SelectFile "js_file option"
  | ReaderError
  | ReaderLoadEnd "jsstring option"
  | ClickIdentify
  | AnalyzeSettled "jsstring settled"

text \<open>How many reads and calls a list of requests starts.\<close>

definition count_reads :: "request list \<Rightarrow> nat" where
  "count_reads rs = length (filter (\<lambda>r. case r of ReadAsDataURL f \<Rightarrow> True | AnalyzeImage d \<Rightarrow> False) rs)"

definition count_calls :: "request list \<Rightarrow> nat" where
  "count_calls rs = length (filter (\<lambda>r. case r of ReadAsDataURL f \<Rightarrow> False | AnalyzeImage d \<Rightarrow> True) rs)"

definition start :: "ui_state \<times> request list \<Rightarrow> sys \<Rightarrow> sys" where
  "start r t = t\<lparr>ui := fst r, reading := reading t + count_reads (snd r),
                 analyzing := analyzing t + count_calls (snd r)\<rparr>"

text \<open>
  One callback runs when its event can happen: the file input is always enabled; the
  button \<open>Identify Tree\<close> is shown when \<open>image\<close> is truthy and is disabled while
  \<open>loading\<close>; the other events need the matching work in flight. \<open>None\<close>: the event
  cannot happen in this state.
\<close>

definition step :: "event \<Rightarrow> sys \<Rightarrow> sys option" where
  "step e t =
     (case e of
        DefaultFailed \<Rightarrow>
          if default_image t = Pending
          then Some (t\<lparr>ui := loadDefaultContent_catch (ui t), default_image := Finished\<rparr>)
          else None
      | DefaultReaderError \<Rightarrow>
          if default_image t = Pending
          then Some (t\<lparr>ui := loadDefaultContent_onerror (ui t), default_image := Errored\<rparr>)
          else None
      | DefaultReaderLoadEnd result \<Rightarrow>
          if (default_image t = Pending \<and> result \<noteq> None)
             \<or> (default_image t = Errored \<and> result = None)
          then Some (t\<lparr>ui := loadDefaultContent_onloadend result (ui t),
                       default_image := Finished\<rparr>)
          else None
      | SelectFile file \<Rightarrow> Some (start (handleImageUpload file (ui t)) t)
      | ReaderError \<Rightarrow>
          if 0 < reading t
          then Some (t\<lparr>ui := upload_onerror (ui t), reading := reading t - 1,
                       read_errored := read_errored t + 1\<rparr>)
          else None
      | ReaderLoadEnd result \<Rightarrow>
          if 0 < reading t \<and> result \<noteq> None
          then Some (start (upload_onloadend result (ui t)) (t\<lparr>reading := reading t - 1\<rparr>))
          else if 0 < read_errored t \<and> result = None
          then Some (start (upload_onloadend result (ui t))
                       (t\<lparr>read_errored := read_errored t - 1\<rparr>))
          else None
      | ClickIdentify \<Rightarrow>
          (case image_st (ui t) of
             None \<Rightarrow> None
           | Some imageData \<Rightarrow>
               if imageData \<noteq> [] \<and> \<not> loading (ui t)
               then Some (start (handleAnalyze_begin (ui t), [AnalyzeImage (Some imageData)]) t)
               else None)
      | AnalyzeSettled outcome \<Rightarrow>
          if 0 < analyzing t
          then Some (t\<lparr>ui := handleAnalyze_settle outcome (ui t), analyzing := analyzing t - 1\<rparr>)
          else None)"


text \<open>
  The events after which the error message is set although no loading operation has
  ended: a selection that validation rejects, and a failed read of an uploaded file.
\<close>

definition rejects :: "event \<Rightarrow> bool" where
  "rejects e =
     (case e of
        SelectFile file \<Rightarrow>
          (case file of
             None \<Rightarrow> False
           | Some f \<Rightarrow> \<not> startsWith (file_type f) (js ''image/'') \<or> file_size f > 20 * 1024 * 1024)
      | ReaderError \<Rightarrow> True
      | _ \<Rightarrow> False)"

subsection \<open>The rendered report\<close>

text \<open>
  The view shows the report when \<open>analysis\<close> is truthy (not the empty string), as the
  blocks \<open>formatAnalysis\<close> makes of it.
\<close>

definition report_view :: "ui_state \<Rightarrow> element list option" where
  "report_view s = (if analysis s \<noteq> [] then Some (formatAnalysis (analysis s)) else None)"

section \<open>Properties of the string operations\<close>

lemma split_not_Nil: "split s sep \<noteq> []"
  by (induction s) (auto split: list.splits)



lemma split_pieces_subset: "p \<in> set (split s sep) \<Longrightarrow> set p \<subseteq> set s"
proof (induction s arbitrary: p)
  case Nil
  then show ?case by simp
next
  case (Cons c cs)
  obtain q qs where sp: "split cs sep = q # qs"
    using split_not_Nil [of cs sep] by (cases "split cs sep") auto
  have q: "set q \<subseteq> set cs" and qs: "\<And>r. r \<in> set qs \<Longrightarrow> set r \<subseteq> set cs"
    using Cons.IH sp by auto
  show ?case
  proof (cases "c = sep")
    case True
    with Cons.prems sp q qs show ?thesis by auto
  next
    case False
    with Cons.prems sp q qs show ?thesis by auto
  qed
qed



section \<open>Properties of the matcher\<close>


lemma rx_many0_greedy:
  "\<forall>c\<in>set ds. p c \<Longrightarrow> rx_match as ys = Some r \<Longrightarrow> (ys = [] \<or> \<not> p (hd ys)) \<Longrightarrow>
   rx_match (Many0 p # as) (ds @ ys) = Some r"
proof (induction ds)
  case Nil
  then show ?case by (cases ys) auto
next
  case (Cons d ds)
  then show ?case by simp
qed

lemma rx_many1_greedy:
  "ds \<noteq> [] \<Longrightarrow> \<forall>c\<in>set ds. p c \<Longrightarrow> rx_match as ys = Some r \<Longrightarrow> (ys = [] \<or> \<not> p (hd ys)) \<Longrightarrow>
   rx_match (Many1 p # as) (ds @ ys) = Some r"
  using rx_many0_greedy [of "tl ds" p as ys r]
  by (cases ds) auto

lemma dot_not_digit: "\<not> isDigit DOT"
  by (simp add: isDigit_def DOT_def)

lemma rx_numbered_match:
  assumes "ds \<noteq> []" "\<forall>c\<in>set ds. isDigit c"
  shows "rx_match RX_NUMBERED (ds @ DOT # rest) = Some rest"
  unfolding RX_NUMBERED_def
  by (rule rx_many1_greedy [OF assms]) (simp_all add: isDot_def dot_not_digit)


text \<open>
  Conversely, \<open>/^\d+\./\<close> matches nothing but a non-empty run of digits followed by
  a period.
\<close>

lemma rx_many0_one_sound:
  "rx_match [Many0 p, One q] s = Some r \<Longrightarrow> \<exists>ds x. (\<forall>d\<in>set ds. p d) \<and> q x \<and> s = ds @ x # r"
proof (induction s)
  case Nil
  then show ?case by simp
next
  case (Cons c cs)
  show ?case
  proof (cases "p c \<and> rx_match [Many0 p, One q] cs \<noteq> None")
    case True
    then obtain r' where r': "rx_match [Many0 p, One q] cs = Some r'" by auto
    with True Cons.prems have "r' = r" by simp
    with r' Cons.IH obtain ds x where "(\<forall>d\<in>set ds. p d)" "q x" "cs = ds @ x # r" by blast
    with True have "(\<forall>d\<in>set (c # ds). p d) \<and> q x \<and> c # cs = (c # ds) @ x # r" by simp
    then show ?thesis by blast
  next
    case False
    with Cons.prems have "q c \<and> cs = r" by (auto split: if_splits option.splits)
    then have "(\<forall>d\<in>set []. p d) \<and> q c \<and> c # cs = [] @ c # r" by simp
    then show ?thesis by blast
  qed
qed

lemma rx_numbered_iff:
  "rx_test RX_NUMBERED s \<longleftrightarrow> (\<exists>ds rest. ds \<noteq> [] \<and> (\<forall>d\<in>set ds. isDigit d) \<and> s = ds @ DOT # rest)"
proof
  assume "rx_test RX_NUMBERED s"
  then obtain r where r: "rx_match [Many1 isDigit, One isDot] s = Some r"
    by (auto simp: rx_test_def RX_NUMBERED_def)
  then obtain c cs where s: "s = c # cs" "isDigit c" "rx_match [Many0 isDigit, One isDot] cs = Some r"
    by (cases s) (auto split: if_splits)
  from rx_many0_one_sound [OF s(3)] obtain ds x where
    "\<forall>d\<in>set ds. isDigit d" "isDot x" "cs = ds @ x # r" by blast
  with s have "c # ds \<noteq> [] \<and> (\<forall>d\<in>set (c # ds). isDigit d) \<and> s = (c # ds) @ DOT # r"
    by (simp add: isDot_def)
  then show "\<exists>ds rest. ds \<noteq> [] \<and> (\<forall>d\<in>set ds. isDigit d) \<and> s = ds @ DOT # rest" by blast
next
  assume "\<exists>ds rest. ds \<noteq> [] \<and> (\<forall>d\<in>set ds. isDigit d) \<and> s = ds @ DOT # rest"
  then show "rx_test RX_NUMBERED s"
    by (auto simp: rx_test_def rx_numbered_match)
qed

section \<open>Properties of the formatter\<close>

lemma trim_blank:
  assumes "\<forall>c\<in>set s. isWhitespace c"
  shows "trim s = []"
proof -
  from assms have e: "dropWhile isWhitespace s = []" by (simp add: dropWhile_eq_Nil_conv)
  show ?thesis unfolding trim_def e by simp
qed

lemma cleanLine_blank:
  "\<forall>c\<in>set line. isMarkdown c \<or> isWhitespace c \<Longrightarrow> cleanLine line = []"
  unfolding cleanLine_def stripMarkdown_def
  by (rule trim_blank) auto

lemma formatLine_blank:
  "\<forall>c\<in>set line. isMarkdown c \<or> isWhitespace c \<Longrightarrow> formatLine line index = None"
  by (simp add: formatLine_def cleanLine_blank)

lemma map_filter_all_None:
  "\<forall>x\<in>set xs. f x = None \<Longrightarrow> List.map_filter f xs = []"
  by (induction xs) auto

lemma formatAnalysis_blank:
  assumes "\<forall>c\<in>set text. isMarkdown c \<or> isWhitespace c"
  shows "formatAnalysis text = []"
proof -
  have "\<forall>e\<in>set (map (\<lambda>(index, line). formatLine line index) (enumerate 0 (split text NEWLINE))). e = None"
  proof
    fix e
    assume "e \<in> set (map (\<lambda>(index, line). formatLine line index) (enumerate 0 (split text NEWLINE)))"
    then obtain i l where il: "(i, l) \<in> set (enumerate 0 (split text NEWLINE))" "e = formatLine l i"
      by auto
    then have "l \<in> set (split text NEWLINE)" by (auto simp: in_set_enumerate_eq)
    then have "set l \<subseteq> set text" by (rule split_pieces_subset)
    with assms have "\<forall>c\<in>set l. isMarkdown c \<or> isWhitespace c" by blast
    with il show "e = None" by (simp add: formatLine_blank)
  qed
  then show ?thesis
    unfolding formatAnalysis_def by (rule map_filter_all_None)
qed

text \<open>
  C10: a line made only of the markdown characters \<open>*\<close>, \<open>_\<close>, \<open>#\<close>, the backquote
  and whitespace (what \<open>trim\<close> removes) is empty once stripped and trimmed, so the
  callback returns \<open>null\<close> for it, as it does for the empty line, and the formatter
  emits no block for it.
\<close>

theorem markup_only_line_dropped:
  assumes "\<forall>c\<in>set line. isMarkdown c \<or> isWhitespace c"
  shows "formatLine line index = None \<and> formatLine line index = formatLine [] index
         \<and> formatAnalysis line = []"
  using assms formatLine_blank [of line index] formatLine_blank [of "[]" index]
    formatAnalysis_blank [of line]
  by simp

theorem markup_only_line_dropped_witness:
  "formatLine (js ''  ** __ ## `` '') 7 = None \<and> formatAnalysis (js ''  ** __ ## `` '') = []"
proof -
  have "\<forall>c\<in>set (js ''  ** __ ## `` ''). isMarkdown c \<or> isWhitespace c"
    by (simp add: js_def isMarkdown_def isWhitespace_def)
  from markup_only_line_dropped [OF this, of 7] show ?thesis by simp
qed









section \<open>Properties of the page controller\<close>

subsection \<open>Validation of a selected file\<close>

lemma type_msg_neq_size_msg:
  "js ''Please upload a valid image file'' \<noteq> js ''Image size should be less than 20MB''"
  by (simp add: js_def)

text \<open>A file of an image type with at most 20 MiB passes both checks and is read.\<close>

lemma valid_file_read:
  assumes "startsWith (file_type f) (js ''image/'')" and "file_size f \<le> 20 * 1024 * 1024"
  shows "handleImageUpload (Some f) s = (s, [ReadAsDataURL f])"
  using assms by (simp add: handleImageUpload_def)

text \<open>
  C3: for a file whose declared type does not start with \<open>image/\<close>, the upload handler
  sets the message \<open>Please upload a valid image file\<close> and returns: it starts no read
  and no analysis call, and the page is as before but for the error message (image,
  report, loading flag and work in flight unchanged).
\<close>

theorem wrong_type_rejected:
  assumes "\<not> startsWith (file_type f) (js ''image/'')"
  shows "handleImageUpload (Some f) (ui t) =
           ((ui t)\<lparr>error := Some (js ''Please upload a valid image file'')\<rparr>, [])
         \<and> step (SelectFile (Some f)) t =
             Some (t\<lparr>ui := (ui t)\<lparr>error := Some (js ''Please upload a valid image file'')\<rparr>\<rparr>)"
  using assms by (simp add: step_def handleImageUpload_def start_def count_reads_def count_calls_def)

theorem wrong_type_rejected_witness:
  "step (SelectFile (Some \<lparr>file_type = js ''application/pdf'', file_size = 4096\<rparr>)) mounted =
     Some (mounted\<lparr>ui := (ui mounted)\<lparr>error := Some (js ''Please upload a valid image file'')\<rparr>\<rparr>)"
proof -
  have "\<not> startsWith (file_type \<lparr>file_type = js ''application/pdf'', file_size = 4096\<rparr>) (js ''image/'')"
    by (simp add: startsWith_def js_def)
  from wrong_type_rejected [OF this, of mounted] show ?thesis by simp
qed

text \<open>
  C4: for a file of an image type with more than \<open>20 * 1024 * 1024\<close> bytes, the upload
  handler sets the message \<open>Image size should be less than 20MB\<close>, which is not the
  message of the type check, and returns without starting a read or an analysis call.
\<close>

theorem oversize_rejected:
  assumes "startsWith (file_type f) (js ''image/'')" and "20 * 1024 * 1024 + 1 \<le> file_size f"
  shows "handleImageUpload (Some f) (ui t) =
           ((ui t)\<lparr>error := Some (js ''Image size should be less than 20MB'')\<rparr>, [])
         \<and> step (SelectFile (Some f)) t =
             Some (t\<lparr>ui := (ui t)\<lparr>error := Some (js ''Image size should be less than 20MB'')\<rparr>\<rparr>)
         \<and> js ''Image size should be less than 20MB'' \<noteq> js ''Please upload a valid image file''"
  using assms type_msg_neq_size_msg
  by (simp add: step_def handleImageUpload_def start_def count_reads_def count_calls_def)

theorem oversize_rejected_witness:
  "step (SelectFile (Some \<lparr>file_type = js ''image/png'', file_size = 20971521\<rparr>)) mounted =
     Some (mounted\<lparr>ui := (ui mounted)\<lparr>error := Some (js ''Image size should be less than 20MB'')\<rparr>\<rparr>)"
proof -
  have a: "startsWith (file_type \<lparr>file_type = js ''image/png'', file_size = 20971521\<rparr>) (js ''image/'')"
    by (simp add: startsWith_def js_def)
  have b: "20 * 1024 * 1024 + 1 \<le> file_size \<lparr>file_type = js ''image/png'', file_size = 20971521\<rparr>"
    by simp
  from oversize_rejected [OF a b, of mounted] show ?thesis by simp
qed

text \<open>
  C9: the type is checked before the size: for a file that is neither of an image type
  nor within 20 MiB, the message is the one of the type check, not the one of the size
  check.
\<close>

theorem type_checked_before_size:
  assumes "\<not> startsWith (file_type f) (js ''image/'')" and "file_size f > 20 * 1024 * 1024"
  shows "error (fst (handleImageUpload (Some f) s)) = Some (js ''Please upload a valid image file'')
         \<and> error (fst (handleImageUpload (Some f) s)) \<noteq> Some (js ''Image size should be less than 20MB'')"
  using assms type_msg_neq_size_msg by (simp add: handleImageUpload_def)

theorem type_checked_before_size_witness:
  "error (fst (handleImageUpload (Some \<lparr>file_type = js ''video/mp4'', file_size = 50000000\<rparr>) initial))
     = Some (js ''Please upload a valid image file'')"
proof -
  have a: "\<not> startsWith (file_type \<lparr>file_type = js ''video/mp4'', file_size = 50000000\<rparr>) (js ''image/'')"
    by (simp add: startsWith_def js_def)
  have b: "file_size \<lparr>file_type = js ''video/mp4'', file_size = 50000000\<rparr> > 20 * 1024 * 1024"
    by simp
  from type_checked_before_size [OF a b, of initial] show ?thesis by simp
qed

subsection \<open>A failed analysis\<close>

lemma handleAnalyze_settle_rejected:
  "handleAnalyze_settle (Rejected err) s =
     s\<lparr>loading := False,
       error := Some (case err of
                        ErrorInstance message \<Rightarrow> message
                      | OtherValue \<Rightarrow> js ''Failed to analyze image. Please try again.'')\<rparr>"
  by (simp add: handleAnalyze_settle_def)



text \<open>
  C8: on a failed analysis \<open>handleAnalyze\<close> changes nothing but \<open>loading\<close> and
  \<open>error\<close>: the report text is the one of the state before, and so is the report the
  view renders. This holds for the part of \<open>handleAnalyze\<close> after the \<open>await\<close> from any
  state, and for the whole of it.
\<close>

theorem failed_analysis_keeps_report:
  "handleAnalyze_settle (Rejected err) s =
     s\<lparr>loading := False, error := error (handleAnalyze_settle (Rejected err) s)\<rparr>
   \<and> handleAnalyze (Rejected err) s =
     s\<lparr>loading := False, error := error (handleAnalyze (Rejected err) s)\<rparr>
   \<and> analysis (handleAnalyze_settle (Rejected err) s) = analysis s
   \<and> analysis (handleAnalyze (Rejected err) s) = analysis s
   \<and> report_view (handleAnalyze_settle (Rejected err) s) = report_view s
   \<and> report_view (handleAnalyze (Rejected err) s) = report_view s"
  by (simp add: handleAnalyze_def handleAnalyze_begin_def handleAnalyze_settle_rejected
      report_view_def)

subsection \<open>The loading flag and the error message\<close>

text \<open>
  Every callback but the rejection of a selected file and the \<open>error\<close> callback of an
  upload's reader leaves \<open>loading\<close> false or \<open>error\<close> absent, if one of the two held
  before; and those two callbacks leave both set only when \<open>loading\<close> was true already.
\<close>

lemma step_keeps_exclusion:
  assumes "step e t = Some t'" and "\<not> rejects e"
    and "\<not> (loading (ui t) \<and> error (ui t) \<noteq> None)"
  shows "\<not> (loading (ui t') \<and> error (ui t') \<noteq> None)"
proof (cases e)
  case DefaultFailed
  with assms(1) show ?thesis
    by (auto simp: step_def loadDefaultContent_catch_def split: if_splits)
next
  case DefaultReaderError
  with assms(1) show ?thesis
    by (auto simp: step_def loadDefaultContent_onerror_def split: if_splits)
next
  case (DefaultReaderLoadEnd result)
  with assms(1) show ?thesis
    by (auto simp: step_def loadDefaultContent_onloadend_def split: if_splits)
next
  case (SelectFile sel)
  with assms show ?thesis
    by (auto simp: step_def rejects_def handleImageUpload_def start_def
        split: option.splits if_splits)
next
  case ReaderError
  with assms(2) show ?thesis by (simp add: rejects_def)
next
  case (ReaderLoadEnd result)
  with assms(1) show ?thesis
    by (auto simp: step_def upload_onloadend_def handleAnalyze_begin_def start_def
        split: if_splits)
next
  case ClickIdentify
  with assms(1) show ?thesis
    by (auto simp: step_def handleAnalyze_begin_def start_def split: option.splits if_splits)
next
  case (AnalyzeSettled outcome)
  with assms(1) show ?thesis
    by (cases outcome) (auto simp: step_def handleAnalyze_settle_def split: if_splits)
qed

lemma step_breaks_exclusion_only_while_loading:
  assumes "step e t = Some t'" and "loading (ui t')" and "error (ui t') \<noteq> None"
    and "\<not> (loading (ui t) \<and> error (ui t) \<noteq> None)"
  shows "rejects e \<and> loading (ui t)"
proof -
  from assms step_keeps_exclusion [of e t t'] have r: "rejects e" by blast
  then consider f where "e = SelectFile (Some f)" | "e = ReaderError"
    by (auto simp: rejects_def split: event.splits option.splits)
  then have "loading (ui t)"
  proof cases
    case 1
    with assms(1,2) show ?thesis
      by (auto simp: step_def handleImageUpload_def start_def split: if_splits)
  next
    case 2
    with assms(1,2) show ?thesis
      by (auto simp: step_def upload_onerror_def split: if_splits)
  qed
  with r show ?thesis by simp
qed






end
